theory Spec2Isabelle
  imports Main "HOL-Library.Log_Nat" "HOL-Library.Multiset"
begin

section \<open>JavaScript numbers\<close>

text \<open>
  The estimator of \<^verbatim>\<open>src/App.js\<close> computes with JavaScript numbers. A number is
  modelled as an exact rational (every binary64 value and every JSON decimal is one)
  or one of the three non-finite values \<^verbatim>\<open>Infinity\<close>, \<^verbatim>\<open>-Infinity\<close> and
  \<^verbatim>\<open>NaN\<close>. The arithmetic of the financial path is exact: rounding of the
  intermediate results, overflow and the sign of zero are not modelled there (a zero
  divisor is the positive zero). Division by zero, the propagation of \<^verbatim>\<open>NaN\<close> and
  comparison with \<^verbatim>\<open>NaN\<close> follow the language. The climate aggregation, whose
  result depends on the order of its additions, takes the rounding of each result as
  an argument (see there).
\<close>

datatype jsnum = Fin rat | PInf | NInf | NaN

fun is_zero :: "jsnum \<Rightarrow> bool" where
  "is_zero (Fin a) = (a = 0)"
| "is_zero _ = False"

fun is_neg :: "jsnum \<Rightarrow> bool" where
  "is_neg (Fin a) = (a < 0)"
| "is_neg NInf = True"
| "is_neg _ = False"

fun jneg :: "jsnum \<Rightarrow> jsnum" where
  "jneg (Fin a) = Fin (- a)"
| "jneg PInf = NInf"
| "jneg NInf = PInf"
| "jneg NaN = NaN"

fun jadd :: "jsnum \<Rightarrow> jsnum \<Rightarrow> jsnum" where
  "jadd NaN _ = NaN"
| "jadd _ NaN = NaN"
| "jadd (Fin a) (Fin b) = Fin (a + b)"
| "jadd PInf NInf = NaN"
| "jadd NInf PInf = NaN"
| "jadd PInf _ = PInf"
| "jadd _ PInf = PInf"
| "jadd NInf _ = NInf"
| "jadd _ NInf = NInf"

definition jsub :: "jsnum \<Rightarrow> jsnum \<Rightarrow> jsnum" where
  "jsub x y = jadd x (jneg y)"

fun jmul :: "jsnum \<Rightarrow> jsnum \<Rightarrow> jsnum" where
  "jmul NaN _ = NaN"
| "jmul _ NaN = NaN"
| "jmul (Fin a) (Fin b) = Fin (a * b)"
| "jmul x y = (if is_zero x \<or> is_zero y then NaN
               else if is_neg x = is_neg y then PInf else NInf)"

fun jdiv :: "jsnum \<Rightarrow> jsnum \<Rightarrow> jsnum" where
  "jdiv NaN _ = NaN"
| "jdiv _ NaN = NaN"
| "jdiv (Fin a) (Fin b) =
     (if b \<noteq> 0 then Fin (a / b)
      else if a = 0 then NaN else if 0 < a then PInf else NInf)"
| "jdiv (Fin a) _ = Fin 0"
| "jdiv x (Fin b) = (if is_neg x = (b < 0) then PInf else NInf)"
| "jdiv _ _ = NaN"

text \<open>\<^verbatim>\<open>x > y\<close>: false as soon as one side is \<^verbatim>\<open>NaN\<close>.\<close>

fun jgt :: "jsnum \<Rightarrow> jsnum \<Rightarrow> bool" where
  "jgt NaN _ = False"
| "jgt _ NaN = False"
| "jgt (Fin a) (Fin b) = (b < a)"
| "jgt PInf y = (y \<noteq> PInf)"
| "jgt x NInf = (x \<noteq> NInf)"
| "jgt _ _ = False"

text \<open>\<^verbatim>\<open>x <= y\<close>, the comparison the specification uses for the savings.\<close>

fun jle :: "jsnum \<Rightarrow> jsnum \<Rightarrow> bool" where
  "jle NaN _ = False"
| "jle _ NaN = False"
| "jle x y = (\<not> jgt x y)"

text \<open>\<^verbatim>\<open>Math.round\<close> rounds to the nearest integer, a tie upwards; \<^verbatim>\<open>Math.ceil\<close>.\<close>

fun Math_round :: "jsnum \<Rightarrow> jsnum" where
  "Math_round (Fin a) = Fin (of_int \<lfloor>a + 1 / 2\<rfloor>)"
| "Math_round x = x"

fun Math_ceil :: "jsnum \<Rightarrow> jsnum" where
  "Math_ceil (Fin a) = Fin (of_int \<lceil>a\<rceil>)"
| "Math_ceil x = x"

subsection \<open>Number.prototype.toFixed\<close>

text \<open>
  \<^verbatim>\<open>x.toFixed(d)\<close> prints the integer \<open>n\<close> nearest to \<open>|x| * 10^d\<close> (the larger
  one at a tie) with a decimal point before its last \<open>d\<close> digits, after the sign of a
  negative \<open>x\<close>. The language switches to exponent notation at magnitudes of
  \<open>10^21\<close> and more; the model prints fixed notation throughout.
\<close>

fun digits :: "nat \<Rightarrow> string" where
  "digits n = (if n < 10 then [''0123456789'' ! n]
               else digits (n div 10) @ [''0123456789'' ! (n mod 10)])"

definition nearest :: "rat \<Rightarrow> nat" where
  "nearest q = nat \<lfloor>q + 1 / 2\<rfloor>"

definition pad_zeros :: "nat \<Rightarrow> string \<Rightarrow> string" where
  "pad_zeros k s = replicate (k - length s) CHR ''0'' @ s"

definition fixed_digits :: "nat \<Rightarrow> nat \<Rightarrow> string" where
  "fixed_digits d n =
     (let s = pad_zeros (d + 1) (digits n); k = length s - d
      in if d = 0 then s else take k s @ ''.'' @ drop k s)"

definition toFixed_rat :: "nat \<Rightarrow> rat \<Rightarrow> string" where
  "toFixed_rat d x =
     (if x < 0 then ''-'' else '''') @ fixed_digits d (nearest (\<bar>x\<bar> * 10 ^ d))"

fun toFixed :: "nat \<Rightarrow> jsnum \<Rightarrow> string" where
  "toFixed d (Fin a) = toFixed_rat d a"
| "toFixed d PInf = ''Infinity''"
| "toFixed d NInf = ''-Infinity''"
| "toFixed d NaN = ''NaN''"

section \<open>Sizing and the financial model (handleSubmit, lines 176-210)\<close>

text \<open>
  The figures are local constants of \<^verbatim>\<open>handleSubmit\<close>, each computed by one
  expression. Each expression is a function of the names it reads; the assumed
  efficiency, sun hours, cost per watt, electricity rate and panel wattage are the
  literals of the source.
\<close>

definition averageSystemEfficiency :: jsnum where
  "averageSystemEfficiency = Fin 0.75"

definition averageSunHoursPerDay :: jsnum where
  "averageSunHoursPerDay = Fin 4"

definition averageCostPerWatt :: jsnum where
  "averageCostPerWatt = Fin 2.77"

definition averageElectricityRate :: jsnum where
  "averageElectricityRate = Fin 0.14"

definition panelWattage :: jsnum where
  "panelWattage = Fin 350"

text \<open>\<^verbatim>\<open>consumption / 365 / averageSunHoursPerDay / averageSystemEfficiency\<close>\<close>

definition systemSize :: "jsnum \<Rightarrow> jsnum \<Rightarrow> jsnum \<Rightarrow> jsnum" where
  "systemSize consumption sunHours efficiency =
     jdiv (jdiv (jdiv consumption (Fin 365)) sunHours) efficiency"

definition systemSizeKW :: "jsnum \<Rightarrow> jsnum" where
  "systemSizeKW annualConsumption =
     systemSize annualConsumption averageSunHoursPerDay averageSystemEfficiency"

text \<open>\<^verbatim>\<open>systemSizeKW * 1000 * averageCostPerWatt\<close>\<close>

definition estimatedCost :: "jsnum \<Rightarrow> jsnum \<Rightarrow> jsnum" where
  "estimatedCost sizeKW costPerWatt = jmul (jmul sizeKW (Fin 1000)) costPerWatt"

text \<open>\<^verbatim>\<open>annualProduction * averageElectricityRate\<close>\<close>

definition annualSavings :: "jsnum \<Rightarrow> jsnum \<Rightarrow> jsnum" where
  "annualSavings annualProduction rate = jmul annualProduction rate"

text \<open>\<^verbatim>\<open>annualSavings > 0 ? estimatedCost / annualSavings : Infinity\<close>\<close>

definition paybackPeriod :: "jsnum \<Rightarrow> jsnum \<Rightarrow> jsnum" where
  "paybackPeriod cost savings = (if jgt savings (Fin 0) then jdiv cost savings else PInf)"

text \<open>\<^verbatim>\<open>estimatedCost - totalIncentives\<close>\<close>

definition adjustedCost :: "jsnum \<Rightarrow> jsnum \<Rightarrow> jsnum" where
  "adjustedCost cost totalIncentives = jsub cost totalIncentives"

text \<open>\<^verbatim>\<open>adjustedCost / annualSavings\<close>, with no test of the savings.\<close>

definition adjustedPaybackPeriod :: "jsnum \<Rightarrow> jsnum \<Rightarrow> jsnum" where
  "adjustedPaybackPeriod adjCost savings = jdiv adjCost savings"

text \<open>\<^verbatim>\<open>Math.ceil(systemSizeKW * 1000 / panelWattage)\<close>\<close>

definition recommendedPanels :: "jsnum \<Rightarrow> jsnum" where
  "recommendedPanels sizeKW = Math_ceil (jdiv (jmul sizeKW (Fin 1000)) panelWattage)"

section \<open>Incentives (findIncentives, calculateIncentives)\<close>

record incentive =
  state :: string
  type :: string
  amount :: jsnum
  description :: string

definition incentivesDatabase :: "incentive list" where
  "incentivesDatabase =
     [\<lparr>state = ''CA'', type = ''rebate'', amount = Fin 1000,
        description = ''California Solar Initiative Rebate''\<rparr>,
      \<lparr>state = ''CA'', type = ''taxCredit'', amount = Fin 0.30,
        description = ''Federal Solar Investment Tax Credit''\<rparr>,
      \<lparr>state = ''NY'', type = ''rebate'', amount = Fin 5000,
        description = ''NY-Sun Incentive Program''\<rparr>,
      \<lparr>state = ''NY'', type = ''taxCredit'', amount = Fin 0.25,
        description = ''New York State Solar Equipment Tax Credit''\<rparr>]"

text \<open>
  The catalog is a module constant in the source; the functions take it as their first
  argument, and \<^verbatim>\<open>handleSubmit\<close> passes \<open>incentivesDatabase\<close>.
\<close>

definition findIncentives :: "incentive list \<Rightarrow> string \<Rightarrow> incentive list" where
  "findIncentives db st = filter (\<lambda>incentive. state incentive = st) db"

text \<open>
  An applied incentive is the record with its \<^verbatim>\<open>appliedAmount\<close>, which stays
  \<^verbatim>\<open>undefined\<close> (\<open>None\<close>) for a type that is neither a rebate nor a tax credit.
\<close>

record applied_incentive =
  incentive :: incentive
  appliedAmount :: "jsnum option"

definition incentiveAmount :: "jsnum \<Rightarrow> incentive \<Rightarrow> jsnum option" where
  "incentiveAmount installationCost i =
     (if type i = ''rebate'' then Some (amount i)
      else if type i = ''taxCredit'' then Some (jmul installationCost (amount i))
      else None)"

text \<open>\<^verbatim>\<open>ToNumber\<close> of a possibly undefined number.\<close>

definition to_number :: "jsnum option \<Rightarrow> jsnum" where
  "to_number v = (case v of None \<Rightarrow> NaN | Some x \<Rightarrow> x)"

text \<open>
  The callback of \<^verbatim>\<open>map\<close> adds to \<^verbatim>\<open>totalIncentives\<close> as it goes: the loop
  threads the total and returns it with the mapped list.
\<close>

fun apply_loop :: "jsnum \<Rightarrow> incentive list \<Rightarrow> jsnum \<Rightarrow> applied_incentive list \<times> jsnum" where
  "apply_loop installationCost [] totalIncentives = ([], totalIncentives)"
| "apply_loop installationCost (i # rest) totalIncentives =
     (let a = incentiveAmount installationCost i;
          (applied, totalIncentives) =
             apply_loop installationCost rest (jadd totalIncentives (to_number a))
      in (\<lparr>incentive = i, appliedAmount = a\<rparr> # applied, totalIncentives))"

definition calculateIncentives ::
  "incentive list \<Rightarrow> jsnum \<Rightarrow> string \<Rightarrow> applied_incentive list \<times> jsnum" where
  "calculateIncentives db installationCost st =
     apply_loop installationCost (findIncentives db st) (Fin 0)"

section \<open>Climate aggregation (processHistoricalWeatherData)\<close>

subsection \<open>Rounding of arithmetic results\<close>

text \<open>
  The aggregation adds up daily values in the order of the input, so the rounding of
  each sum matters to what it returns. Its arithmetic takes the rounding as an
  argument \<open>rnd\<close>, applied to the exact result of every addition and division: the
  identity is exact arithmetic, \<open>binary64\<close> is the language's (round to nearest, ties
  to even, 53 significant bits; the exponent range is not modelled, so no overflow
  and no subnormal numbers).
\<close>

definition pow2 :: "int \<Rightarrow> rat" where
  "pow2 e = (if 0 \<le> e then 2 ^ nat e else 1 / 2 ^ nat (- e))"

definition round_even :: "rat \<Rightarrow> int" where
  "round_even y =
     (let f = \<lfloor>y\<rfloor>; d = y - of_int f
      in if d < 1 / 2 then f else if 1 / 2 < d then f + 1
         else if even f then f else f + 1)"

text \<open>The binary exponent \<open>e\<close> of a non-zero \<open>x\<close>: \<open>2^e \<le> |x| < 2^(e+1)\<close>.\<close>

definition exponent :: "rat \<Rightarrow> int" where
  "exponent x =
     (let (p, q) = quotient_of \<bar>x\<bar>; k = bitlen p - bitlen q
      in if pow2 k \<le> \<bar>x\<bar> then k else k - 1)"

definition binary64 :: "rat \<Rightarrow> rat" where
  "binary64 x =
     (if x = 0 then 0
      else let u = pow2 (exponent x - 52) in of_int (round_even (x / u)) * u)"

subsection \<open>The calendar month of a timestamp\<close>

text \<open>
  \<^verbatim>\<open>new Date(day.dt * 1000).getMonth()\<close> is the month (0 to 11) of the host's local
  time, which depends on its time zone; it is \<^verbatim>\<open>NaN\<close> for a time outside the
  range of dates. The aggregation takes this function as an argument \<open>getMonth\<close>, from
  the timestamp in seconds; a result that is no index of the twelve accumulators
  stands for \<^verbatim>\<open>NaN\<close>. \<open>utcMonth\<close> is the function of a host whose zone is UTC
  (days since 1970-01-01 to the civil month, counting the year from the first of March).
\<close>

definition utcMonth :: "int \<Rightarrow> nat" where
  "utcMonth t =
     (let z = t div 86400 + 719468;
          doe = z mod 146097;
          yoe = (doe - doe div 1460 + doe div 36524 - doe div 146096) div 365;
          doy = doe - (365 * yoe + yoe div 4 - yoe div 100);
          mp = (5 * doy + 2) div 153
      in nat ((mp + 2) mod 12))"

subsection \<open>The aggregation\<close>

record weather_sample =
  dt :: int
  temp_day :: rat
  uvi :: rat

text \<open>The accumulator of a month: \<^verbatim>\<open>{ temperature: 0, solarRadiation: 0, count: 0 }\<close>.\<close>

record month_acc =
  acc_temperature :: rat
  acc_solarRadiation :: rat
  acc_count :: nat

text \<open>
  A value of the result is the number \<^verbatim>\<open>0\<close> or the string that
  \<^verbatim>\<open>toFixed(1)\<close> returns.
\<close>

datatype chart_value = NumberV rat | StringV string

record month_summary =
  month :: string
  temperature :: chart_value
  solarRadiation :: chart_value

definition monthNames :: "string list" where
  "monthNames = [''Jan'', ''Feb'', ''Mar'', ''Apr'', ''May'', ''Jun'',
                 ''Jul'', ''Aug'', ''Sep'', ''Oct'', ''Nov'', ''Dec'']"

text \<open>The message of the \<^verbatim>\<open>TypeError\<close> of reading a property of \<^verbatim>\<open>undefined\<close> (V8's wording).\<close>

definition typeError :: "string \<Rightarrow> string" where
  "typeError property = ''Cannot read properties of undefined (reading '' @ [CHR 0x27] @ property @ [CHR 0x27] @ '')''"

text \<open>
  \<^verbatim>\<open>dailyData.forEach(day => ...)\<close>: the body updates the accumulator of the day's
  month in place; \<^verbatim>\<open>monthlyData[month]\<close> is \<^verbatim>\<open>undefined\<close> outside the array and
  reading its \<^verbatim>\<open>temperature\<close> throws.
\<close>

definition add_day :: "(rat \<Rightarrow> rat) \<Rightarrow> weather_sample \<Rightarrow> month_acc \<Rightarrow> month_acc" where
  "add_day rnd day m =
     \<lparr>acc_temperature = rnd (acc_temperature m + temp_day day),
      acc_solarRadiation = rnd (acc_solarRadiation m + uvi day),
      acc_count = acc_count m + 1\<rparr>"

fun forEach_day ::
  "(rat \<Rightarrow> rat) \<Rightarrow> (int \<Rightarrow> nat) \<Rightarrow> weather_sample list \<Rightarrow> month_acc list
     \<Rightarrow> string + month_acc list" where
  "forEach_day rnd getMonth [] monthlyData = Inr monthlyData"
| "forEach_day rnd getMonth (day # rest) monthlyData =
     (let month = getMonth (dt day)
      in if month < length monthlyData
         then forEach_day rnd getMonth rest
                (monthlyData[month := add_day rnd day (monthlyData ! month)])
         else Inl (typeError ''temperature''))"

definition mean_value :: "(rat \<Rightarrow> rat) \<Rightarrow> rat \<Rightarrow> nat \<Rightarrow> chart_value" where
  "mean_value rnd acc n =
     (if 0 < n then StringV (toFixed_rat 1 (rnd (acc / of_nat n))) else NumberV 0)"

definition summarise :: "(rat \<Rightarrow> rat) \<Rightarrow> month_acc \<Rightarrow> nat \<Rightarrow> month_summary" where
  "summarise rnd m index =
     \<lparr>month = monthNames ! index,
      temperature = mean_value rnd (acc_temperature m) (acc_count m),
      solarRadiation = mean_value rnd (acc_solarRadiation m) (acc_count m)\<rparr>"

definition processHistoricalWeatherData ::
  "(rat \<Rightarrow> rat) \<Rightarrow> (int \<Rightarrow> nat) \<Rightarrow> weather_sample list \<Rightarrow> string + month_summary list" where
  "processHistoricalWeatherData rnd getMonth dailyData =
     (case forEach_day rnd getMonth dailyData
             (replicate 12 \<lparr>acc_temperature = 0, acc_solarRadiation = 0, acc_count = 0\<rparr>) of
        Inl e \<Rightarrow> Inl e
      | Inr monthlyData \<Rightarrow>
          Inr (map (\<lambda>(m, index). summarise rnd m index)
                 (zip monthlyData [0..<length monthlyData])))"

subsection \<open>What the aggregation computes, month by month\<close>

text \<open>
  The samples of a month, in the order of the input; the sum and the mean of a list
  of values as the loop computes them (from zero, left to right, each result rounded);
  the value reported for a month and the entry of the month.
\<close>

definition month_samples :: "(int \<Rightarrow> nat) \<Rightarrow> nat \<Rightarrow> weather_sample list \<Rightarrow> weather_sample list" where
  "month_samples getMonth i ds = filter (\<lambda>d. getMonth (dt d) = i) ds"

definition js_sum :: "(rat \<Rightarrow> rat) \<Rightarrow> rat list \<Rightarrow> rat" where
  "js_sum rnd xs = foldl (\<lambda>a x. rnd (a + x)) 0 xs"

definition js_mean :: "(rat \<Rightarrow> rat) \<Rightarrow> rat list \<Rightarrow> rat" where
  "js_mean rnd xs = rnd (js_sum rnd xs / of_nat (length xs))"

definition one_decimal_mean :: "(rat \<Rightarrow> rat) \<Rightarrow> rat list \<Rightarrow> chart_value" where
  "one_decimal_mean rnd xs =
     (if xs = [] then NumberV 0 else StringV (toFixed_rat 1 (js_mean rnd xs)))"

definition monthly_summary ::
  "(rat \<Rightarrow> rat) \<Rightarrow> (int \<Rightarrow> nat) \<Rightarrow> weather_sample list \<Rightarrow> nat \<Rightarrow> month_summary" where
  "monthly_summary rnd getMonth ds i =
     \<lparr>month = monthNames ! i,
      temperature = one_decimal_mean rnd (map temp_day (month_samples getMonth i ds)),
      solarRadiation = one_decimal_mean rnd (map uvi (month_samples getMonth i ds))\<rparr>"




section \<open>The estimation (handleSubmit)\<close>

subsection \<open>Responses of the collaborators\<close>

text \<open>
  An awaited call either rejects, with an error of some message (\<open>Inl\<close>), or delivers
  the parsed JSON body (\<open>Inr\<close>). A body is read at the types the providers document:
  a field is absent (\<open>None\<close>) or holds a value of its type.
\<close>

record coordinates =
  lat :: string
  lon :: string

record nrel_outputs =
  ac_annual :: "jsnum option"
  ac_monthly :: "jsnum list option"

record nrel_data =
  errors :: "string list option"
  outputs :: "nrel_outputs option"

record nrel_query =
  q_lat :: string
  q_lon :: string
  q_system_capacity :: jsnum
  q_azimuth :: int
  q_tilt :: int

text \<open>
  The current weather: \<^verbatim>\<open>main.temp\<close>, the \<^verbatim>\<open>description\<close> of each entry of
  \<^verbatim>\<open>weather\<close>, \<^verbatim>\<open>clouds.all\<close>.
\<close>

record weather_body =
  w_main :: "jsnum option"
  w_weather :: "string list option"
  w_clouds :: "jsnum option"

record onecall_body =
  daily :: "weather_sample list option"

record collaborators =
  geocode :: "string \<Rightarrow> string + coordinates list"
  pvwatts :: "nrel_query \<Rightarrow> string + nrel_data"
  current_weather :: "coordinates \<Rightarrow> string + weather_body"
  onecall :: "coordinates \<Rightarrow> string + onecall_body"
  local_month :: "int \<Rightarrow> nat"

subsection \<open>State of the component\<close>

record chart_point =
  name :: "string option"
  production :: jsnum

record weather_info =
  wi_temperature :: "jsnum option"
  wi_description :: string
  wi_cloudCover :: "jsnum option"

text \<open>The object passed to \<^verbatim>\<open>setCostEstimate\<close>; its fields carry the prefix \<open>ce_\<close>.\<close>

record cost_estimate =
  ce_installationCost :: jsnum
  ce_adjustedInstallationCost :: jsnum
  ce_paybackPeriod :: string
  ce_adjustedPaybackPeriod :: string
  ce_annualSavings :: jsnum
  ce_systemSizeKW :: string
  ce_recommendedPanels :: jsnum
  ce_recommendedSystemSize :: string
  ce_recommendedProduction :: jsnum
  ce_totalIncentives :: jsnum

text \<open>
  The state variables that \<^verbatim>\<open>handleSubmit\<close> reads and writes.
  \<open>annualConsumption\<close> holds the number that \<^verbatim>\<open>parseFloat\<close> reads from the text of
  the field (\<^verbatim>\<open>NaN\<close> when there is none).
\<close>

record app_state =
  address :: string
  annualConsumption :: jsnum
  orientation :: int
  tilt :: int
  apiKeyAvailable :: bool
  estimate :: "jsnum option"
  loading :: bool
  error :: string
  monthlyData :: "chart_point list"
  weatherData :: "weather_info option"
  costEstimate :: "cost_estimate option"
  mapCoordinates :: "coordinates option"
  historicalWeather :: "month_summary list option"
  incentives :: "applied_incentive list"

subsection \<open>Strings\<close>

text \<open>
  \<^verbatim>\<open>address.split(',').pop().trim()\<close>. White space is the ASCII white space (strings
  are byte strings here).
\<close>

fun split :: "char \<Rightarrow> string \<Rightarrow> string list" where
  "split c [] = [[]]"
| "split c (x # xs) =
     (if x = c then [] # split c xs
      else (case split c xs of [] \<Rightarrow> [[x]] | w # ws \<Rightarrow> (x # w) # ws))"

definition pop :: "string list \<Rightarrow> string" where
  "pop parts = (case rev parts of [] \<Rightarrow> [] | w # _ \<Rightarrow> w)"

definition is_space :: "char \<Rightarrow> bool" where
  "is_space c = (c \<in> set [CHR '' '', CHR 0x09, CHR 0x0A, CHR 0x0B, CHR 0x0C, CHR 0x0D])"

definition trim :: "string \<Rightarrow> string" where
  "trim s = rev (dropWhile is_space (rev (dropWhile is_space s)))"

text \<open>\<^verbatim>\<open>Array.prototype.join\<close>\<close>

fun join :: "string \<Rightarrow> string list \<Rightarrow> string" where
  "join sep [] = []"
| "join sep [x] = x"
| "join sep (x # y # ys) = x @ sep @ join sep (y # ys)"

subsection \<open>The body of the try block\<close>

text \<open>
  A step returns the state it leaves and, when it throws, the message of the error:
  what the setters have already stored stays stored.
\<close>

definition chartData :: "jsnum list \<Rightarrow> chart_point list" where
  "chartData vs =
     map (\<lambda>(v, index).
            \<lparr>name = (if index < length monthNames then Some (monthNames ! index) else None),
             production = Math_round v\<rparr>)
       (zip vs [0..<length vs])"

definition display_period :: "jsnum \<Rightarrow> string" where
  "display_period p = (if p = PInf then ''Infinity'' else toFixed 1 p)"

text \<open>Lines 233-251: the current weather, whose failures are absorbed.\<close>

definition fetch_weather :: "collaborators \<Rightarrow> coordinates \<Rightarrow> app_state \<Rightarrow> app_state" where
  "fetch_weather env c s =
     (case current_weather env c of
        Inl e \<Rightarrow> s\<lparr>weatherData := None\<rparr>
      | Inr w \<Rightarrow>
          (case (w_main w, w_weather w, w_clouds w) of
             (Some t, Some (d # ds), Some cl) \<Rightarrow>
               s\<lparr>weatherData :=
                   Some \<lparr>wi_temperature = Some t, wi_description = d, wi_cloudCover = Some cl\<rparr>\<rparr>
           | _ \<Rightarrow> s\<lparr>weatherData := None\<rparr>))"

text \<open>
  Lines 253-268: the historical weather, whose failures are absorbed. The aggregation
  runs in the language's arithmetic and in the host's calendar.
\<close>

definition fetch_historical :: "collaborators \<Rightarrow> coordinates \<Rightarrow> app_state \<Rightarrow> app_state" where
  "fetch_historical env c s =
     (case onecall env c of
        Inl e \<Rightarrow> s\<lparr>historicalWeather := None\<rparr>
      | Inr h \<Rightarrow>
          (case daily h of
             None \<Rightarrow> s\<lparr>historicalWeather := None\<rparr>
           | Some d \<Rightarrow>
               (case processHistoricalWeatherData binary64 (local_month env) d of
                  Inl e \<Rightarrow> s\<lparr>historicalWeather := None\<rparr>
                | Inr processedHistoricalData \<Rightarrow>
                    s\<lparr>historicalWeather := Some processedHistoricalData\<rparr>)))"

text \<open>Lines 187-231, from the annual figure to \<^verbatim>\<open>setCostEstimate\<close>.\<close>

definition costing ::
  "nrel_outputs \<Rightarrow> jsnum \<Rightarrow> app_state \<Rightarrow> app_state \<times> string option" where
  "costing out sizeKW s =
     (let annualProduction = to_number (ac_annual out);
          cost = estimatedCost sizeKW averageCostPerWatt;
          savings = annualSavings annualProduction averageElectricityRate;
          payback = paybackPeriod cost savings;
          s = s\<lparr>estimate := Some (Math_round annualProduction)\<rparr>;
          panels = recommendedPanels sizeKW;
          st = trim (pop (split CHR '','' (address s)));
          (appliedIncentives, totalIncentives) = calculateIncentives incentivesDatabase cost st;
          s = s\<lparr>incentives := appliedIncentives\<rparr>;
          adjCost = adjustedCost cost totalIncentives;
          adjPayback = adjustedPaybackPeriod adjCost savings
      in case ac_monthly out of
           None \<Rightarrow> (s, Some (typeError ''map''))
         | Some monthly \<Rightarrow>
             (s\<lparr>monthlyData := chartData monthly,
                costEstimate := Some
                  \<lparr>ce_installationCost = Math_round cost,
                   ce_adjustedInstallationCost = Math_round adjCost,
                   ce_paybackPeriod = display_period payback,
                   ce_adjustedPaybackPeriod = display_period adjPayback,
                   ce_annualSavings = Math_round savings,
                   ce_systemSizeKW = toFixed 2 sizeKW,
                   ce_recommendedPanels = panels,
                   ce_recommendedSystemSize = toFixed 2 sizeKW,
                   ce_recommendedProduction = Math_round annualProduction,
                   ce_totalIncentives = Math_round totalIncentives\<rparr>\<rparr>, None))"

text \<open>Lines 183-187: the reading of the provider's response.\<close>

definition interpret_production ::
  "nrel_data \<Rightarrow> jsnum \<Rightarrow> app_state \<Rightarrow> app_state \<times> string option" where
  "interpret_production nrelData sizeKW s =
     (case errors nrelData of
        Some (e # es) \<Rightarrow> (s, Some (''Error fetching solar data: '' @ join '', '' (e # es)))
      | _ \<Rightarrow>
          (case outputs nrelData of
             None \<Rightarrow> (s, Some (typeError ''ac_annual''))
           | Some out \<Rightarrow> costing out sizeKW s))"

text \<open>
  Line 180: the request to PVWatts carries the coordinates, the capacity, the
  orientation and the tilt.
\<close>

definition production_query :: "coordinates \<Rightarrow> app_state \<Rightarrow> nrel_query" where
  "production_query c s =
     \<lparr>q_lat = lat c, q_lon = lon c, q_system_capacity = systemSizeKW (annualConsumption s),
      q_azimuth = orientation s, q_tilt = tilt s\<rparr>"

definition try_block :: "collaborators \<Rightarrow> app_state \<Rightarrow> app_state \<times> string option" where
  "try_block env s =
     (case geocode env (address s) of
        Inl e \<Rightarrow> (s, Some e)
      | Inr [] \<Rightarrow> (s, Some ''Unable to find coordinates for the given address'')
      | Inr (c # cs) \<Rightarrow>
          (let s = s\<lparr>mapCoordinates := Some c\<rparr>;
               sizeKW = systemSizeKW (annualConsumption s)
           in case pvwatts env (production_query c s) of
                Inl e \<Rightarrow> (s, Some e)
              | Inr nrelData \<Rightarrow>
                  (case interpret_production nrelData sizeKW s of
                     (s, Some e) \<Rightarrow> (s, Some e)
                   | (s, None) \<Rightarrow> (fetch_historical env c (fetch_weather env c s), None))))"

text \<open>Lines 154-162: the reset of the results before the try block.\<close>

definition reset_results :: "app_state \<Rightarrow> app_state" where
  "reset_results s =
     s\<lparr>loading := True, error := [], estimate := None, monthlyData := [],
       weatherData := None, costEstimate := None, mapCoordinates := None,
       historicalWeather := None, incentives := []\<rparr>"

text \<open>Line 271: \<^verbatim>\<open>err.message || 'Failed to estimate solar production. Please try again.'\<close>\<close>

definition catch_message :: "string \<Rightarrow> string" where
  "catch_message m =
     (if m = [] then ''Failed to estimate solar production. Please try again.'' else m)"

text \<open>
  \<^verbatim>\<open>handleSubmit\<close>: the guard on the API keys, the reset of the results, the try
  block, the catch and the finally.
\<close>

definition handleSubmit :: "collaborators \<Rightarrow> app_state \<Rightarrow> app_state" where
  "handleSubmit env s =
     (if \<not> apiKeyAvailable s then s\<lparr>error := ''Cannot proceed without API keys.''\<rparr>
      else
        (case try_block env (reset_results s) of
           (s', None) \<Rightarrow> s'\<lparr>loading := False\<rparr>
         | (s', Some m) \<Rightarrow> s'\<lparr>error := catch_message m, loading := False\<rparr>))"

section \<open>The mock estimation endpoint (server)\<close>

text \<open>
  \<^verbatim>\<open>app.post('/api/estimate')\<close> answers
  \<^verbatim>\<open>Math.round(Math.random() * 5000 + 2000)\<close>. \<^verbatim>\<open>Math.random()\<close> is a draw from
  \<open>[0, 1)\<close>; the endpoint is a function of the request and of the draw.
\<close>

record estimate_request =
  req_address :: string
  req_roofArea :: jsnum

definition api_estimate :: "estimate_request \<Rightarrow> rat \<Rightarrow> jsnum" where
  "api_estimate req random = Math_round (jadd (jmul (Fin random) (Fin 5000)) (Fin 2000))"

section \<open>Example inputs\<close>

text \<open>
  The state of a freshly mounted component with an address and a consumption entered,
  a provider response of the documented shape, and collaborators that answer every
  request alike: the geocoder finds the address, the weather request fails, the
  historical request returns no day, and the host's zone is UTC.
\<close>

definition initial_state :: "string \<Rightarrow> jsnum \<Rightarrow> app_state" where
  "initial_state a c =
     \<lparr>address = a, annualConsumption = c, orientation = 180, tilt = 20,
      apiKeyAvailable = True, estimate = None, loading = False, error = [],
      monthlyData = [], weatherData = None, costEstimate = None, mapCoordinates = None,
      historicalWeather = None, incentives = []\<rparr>"

definition well_formed_response :: "jsnum \<Rightarrow> nrel_data" where
  "well_formed_response annual =
     \<lparr>errors = None,
      outputs = Some \<lparr>ac_annual = Some annual,
                      ac_monthly = Some (replicate 12 (jdiv annual (Fin 12)))\<rparr>\<rparr>"

definition demo_collaborators :: "string + nrel_data \<Rightarrow> collaborators" where
  "demo_collaborators r =
     \<lparr>geocode = (\<lambda>a. Inr [\<lparr>lat = ''42.65'', lon = ''-73.75''\<rparr>]),
      pvwatts = (\<lambda>q. r),
      current_weather = (\<lambda>c. Inl ''Failed to fetch''),
      onecall = (\<lambda>c. Inr \<lparr>daily = Some []\<rparr>),
      local_month = utcMonth\<rparr>"

text \<open>
  Four days of January 1970 (the 11th to the 14th) with the temperatures that JSON
  reads from 0.1, 0.2, 0.3 and 0.4; three days of 2024 (15 January, 15 February and
  16 January, at noon), and the same days in another order that keeps the two days of
  January in their order.
\<close>

definition january_days :: "weather_sample list" where
  "january_days =
     [\<lparr>dt = 864000, temp_day = binary64 0.1, uvi = 1\<rparr>,
      \<lparr>dt = 950400, temp_day = binary64 0.2, uvi = 2\<rparr>,
      \<lparr>dt = 1036800, temp_day = binary64 0.3, uvi = 3\<rparr>,
      \<lparr>dt = 1123200, temp_day = binary64 0.4, uvi = 4\<rparr>]"

definition winter_days :: "weather_sample list" where
  "winter_days =
     [\<lparr>dt = 1705320000, temp_day = 1.5, uvi = 1\<rparr>,
      \<lparr>dt = 1707998400, temp_day = 5.25, uvi = 2\<rparr>,
      \<lparr>dt = 1705406400, temp_day = 2.5, uvi = 3\<rparr>]"

definition winter_days_shuffled :: "weather_sample list" where
  "winter_days_shuffled =
     [\<lparr>dt = 1707998400, temp_day = 5.25, uvi = 2\<rparr>,
      \<lparr>dt = 1705320000, temp_day = 1.5, uvi = 1\<rparr>,
      \<lparr>dt = 1705406400, temp_day = 2.5, uvi = 3\<rparr>]"

section \<open>Sizing\<close>




section \<open>Financial model\<close>



text \<open>
  The baseline payback period of a finite cost is the unbounded value exactly when the
  savings are at most zero (savings that are not \<^verbatim>\<open>NaN\<close>).
\<close>

lemma paybackPeriod_unbounded_iff:
  "savings \<noteq> NaN \<Longrightarrow> paybackPeriod (Fin c) savings = PInf \<longleftrightarrow> jle savings (Fin 0)"
  by (cases savings) (auto simp: paybackPeriod_def)

text \<open>
  C1: the adjusted payback period is computed without the test of the savings that the
  baseline has. For a consumption of 1000 kWh at an address in NY and a provider
  response with an annual production of 0, the savings are 0, the adjusted cost is
  negative, the baseline period is \<^verbatim>\<open>Infinity\<close> and the adjusted period is
  \<^verbatim>\<open>-Infinity\<close>, not the unbounded value.
\<close>

theorem adjusted_payback_zero_savings:
  "annualSavings (Fin 0) averageElectricityRate = Fin 0
   \<and> adjustedPaybackPeriod (Fin (- 3102)) (Fin 0) = NInf
   \<and> map_option (\<lambda>ce. (ce_annualSavings ce, ce_paybackPeriod ce, ce_adjustedPaybackPeriod ce))
        (costEstimate (handleSubmit (demo_collaborators (Inr (well_formed_response (Fin 0))))
                         (initial_state ''12 Elm Street, Albany, NY'' (Fin 1000))))
       = Some (Fin 0, ''Infinity'', ''-Infinity'')"
  by code_simp

section \<open>Incentives\<close>





section \<open>Climate aggregation\<close>

text \<open>
  The rounding and the calendar on known values: 0.1 is read as
  \<open>3602879701896397 / 2^55\<close>, a binary fraction is kept, the sum of the numbers
  read from 0.1 and 0.2 is the one read from 0.30000000000000004; 29 February 2000 is
  in February, the second before 1970 in December, and a month is always an index.
\<close>

lemma binary64_examples:
  "binary64 0.1 = 3602879701896397 / 2 ^ 55"
  "binary64 0.25 = 0.25"
  "binary64 (binary64 0.1 + binary64 0.2) = binary64 0.30000000000000004"
  "binary64 (binary64 0.1 + binary64 0.2) \<noteq> binary64 0.3"
  by code_simp+

lemma utcMonth_examples:
  "utcMonth 0 = 0"
  "utcMonth (- 1) = 11"
  "utcMonth 951782400 = 1"
  "utcMonth 951868800 = 2"
  "utcMonth 1735689599 = 11"
  by code_simp+

lemma utcMonth_index: "utcMonth t < 12"
proof -
  have m: "nat (x mod 12) < 12" for x :: int
    by (simp add: nat_less_iff)
  show ?thesis
    unfolding utcMonth_def Let_def by (rule m)
qed

text \<open>
  The loop over the days leaves, in the accumulator of each month, the fold of the
  month's samples in their order; it throws as soon as a day's month is no index of
  the accumulators.
\<close>

lemma forEach_day_valid:
  "\<forall>d \<in> set ds. getMonth (dt d) < length accs \<Longrightarrow>
   forEach_day rnd getMonth ds accs =
     Inr (map (\<lambda>i. foldl (\<lambda>m d. add_day rnd d m) (accs ! i) (month_samples getMonth i ds))
            [0..<length accs])"
proof (induction ds arbitrary: accs)
  case Nil
  show ?case by (simp add: month_samples_def map_nth)
next
  case (Cons day rest)
  let ?k = "getMonth (dt day)"
  let ?accs = "accs[?k := add_day rnd day (accs ! ?k)]"
  from Cons.prems have k: "?k < length accs" by simp
  from Cons.prems have "\<forall>d \<in> set rest. getMonth (dt d) < length ?accs" by simp
  from Cons.IH [OF this]
  have "forEach_day rnd getMonth rest ?accs =
     Inr (map (\<lambda>i. foldl (\<lambda>m d. add_day rnd d m) (?accs ! i) (month_samples getMonth i rest))
            [0..<length accs])"
    by simp
  moreover have "foldl (\<lambda>m d. add_day rnd d m) (?accs ! i) (month_samples getMonth i rest)
      = foldl (\<lambda>m d. add_day rnd d m) (accs ! i) (month_samples getMonth i (day # rest))"
    if "i < length accs" for i
    using that by (cases "i = ?k") (simp_all add: month_samples_def)
  ultimately show ?case
    using k by (simp add: Let_def)
qed

lemma forEach_day_invalid:
  "\<exists>d \<in> set ds. \<not> getMonth (dt d) < length accs \<Longrightarrow>
   forEach_day rnd getMonth ds accs = Inl (typeError ''temperature'')"
proof (induction ds arbitrary: accs)
  case Nil
  then show ?case by simp
next
  case (Cons day rest)
  show ?case
  proof (cases "getMonth (dt day) < length accs")
    case True
    with Cons.prems have "\<exists>d \<in> set rest. \<not> getMonth (dt d)
        < length (accs[getMonth (dt day) := add_day rnd day (accs ! getMonth (dt day))])"
      by auto
    from Cons.IH [OF this] True show ?thesis by (simp add: Let_def)
  next
    case False
    then show ?thesis by (simp add: Let_def)
  qed
qed

lemma foldl_add_day:
  "foldl (\<lambda>m d. add_day rnd d m) a ds =
     \<lparr>acc_temperature = foldl (\<lambda>s x. rnd (s + x)) (acc_temperature a) (map temp_day ds),
      acc_solarRadiation = foldl (\<lambda>s x. rnd (s + x)) (acc_solarRadiation a) (map uvi ds),
      acc_count = acc_count a + length ds\<rparr>"
  by (induction ds arbitrary: a) (simp_all add: add_day_def)

lemma summarise_month:
  "summarise rnd (foldl (\<lambda>m d. add_day rnd d m)
       \<lparr>acc_temperature = 0, acc_solarRadiation = 0, acc_count = 0\<rparr>
       (month_samples getMonth i ds)) i = monthly_summary rnd getMonth ds i"
  by (simp add: foldl_add_day summarise_def monthly_summary_def mean_value_def
      one_decimal_mean_def js_mean_def js_sum_def)

lemma processHistoricalWeatherData_eq:
  "processHistoricalWeatherData rnd getMonth ds =
     (if \<forall>d \<in> set ds. getMonth (dt d) < 12
      then Inr (map (monthly_summary rnd getMonth ds) [0..<12])
      else Inl (typeError ''temperature''))"
proof (cases "\<forall>d \<in> set ds. getMonth (dt d) < 12")
  case True
  let ?z = "\<lparr>acc_temperature = 0, acc_solarRadiation = 0, acc_count = 0\<rparr>"
  from True have "\<forall>d \<in> set ds. getMonth (dt d) < length (replicate 12 ?z)" by simp
  from forEach_day_valid [OF this, of rnd]
  have run: "forEach_day rnd getMonth ds (replicate 12 ?z) =
     Inr (map (\<lambda>i. foldl (\<lambda>m d. add_day rnd d m) ?z (month_samples getMonth i ds)) [0..<12])"
    by (simp cong: map_cong)
  have "map (\<lambda>(m, index). summarise rnd m index)
          (zip (map (\<lambda>i. foldl (\<lambda>m d. add_day rnd d m) ?z (month_samples getMonth i ds)) [0..<12])
               [0..<12])
        = map (monthly_summary rnd getMonth ds) [0..<12]"
    by (simp add: zip_map1 zip_same_conv_map summarise_month del: upt.simps)
  with run True show ?thesis
    by (simp add: processHistoricalWeatherData_def del: upt.simps)
next
  case False
  then have "\<exists>d \<in> set ds. \<not> getMonth (dt d)
      < length (replicate 12 \<lparr>acc_temperature = 0, acc_solarRadiation = 0, acc_count = 0\<rparr>)"
    by simp
  from forEach_day_invalid [OF this] False show ?thesis
    by (simp add: processHistoricalWeatherData_def)
qed

lemma js_sum_exact: "js_sum (\<lambda>x. x) xs = sum_list xs"
proof -
  have "foldl (\<lambda>a x. a + x) t xs = t + sum_list xs" for t :: rat
    by (induction xs arbitrary: t) (simp_all add: add.assoc)
  from this [of 0] show ?thesis by (simp add: js_sum_def)
qed

text \<open>The integer that \<^verbatim>\<open>toFixed\<close> prints is within one half of the scaled magnitude.\<close>

lemma nearest_is_nearest:
  assumes "0 \<le> q"
  shows "\<bar>of_nat (nearest q) - q\<bar> \<le> 1 / 2"
proof -
  have "0 \<le> \<lfloor>q + 1 / 2\<rfloor>" using assms by simp
  then have "(of_nat (nearest q) :: rat) = of_int \<lfloor>q + 1 / 2\<rfloor>"
    by (simp add: nearest_def)
  then show ?thesis by linarith
qed




lemma one_decimal_mean_exact_mset:
  assumes "mset xs = mset ys"
  shows "one_decimal_mean (\<lambda>x. x) xs = one_decimal_mean (\<lambda>x. x) ys"
proof -
  from assms have "length xs = length ys" by (rule mset_eq_length)
  moreover from assms have "sum_list xs = sum_list ys"
    by (metis sum_mset_sum_list)
  moreover from assms have "xs = [] \<longleftrightarrow> ys = []"
    by (metis mset_zero_iff)
  ultimately show ?thesis
    by (simp add: one_decimal_mean_def js_mean_def js_sum_exact)
qed

text \<open>
  C8, as amended: in exact arithmetic the aggregation of a permutation of the samples
  equals the aggregation of the samples; under any rounding of the sums, the
  language's included, it does so for every permutation that keeps the samples of each
  month in their order.
\<close>

theorem aggregation_permutation:
  assumes "mset ds' = mset ds"
  shows "processHistoricalWeatherData (\<lambda>x. x) getMonth ds'
           = processHistoricalWeatherData (\<lambda>x. x) getMonth ds
       \<and> ((\<forall>i<12. month_samples getMonth i ds' = month_samples getMonth i ds) \<longrightarrow>
            processHistoricalWeatherData rnd getMonth ds'
              = processHistoricalWeatherData rnd getMonth ds)"
proof -
  from assms have set_eq: "set ds' = set ds" by (rule mset_eq_setD)
  have "monthly_summary (\<lambda>x. x) getMonth ds' i = monthly_summary (\<lambda>x. x) getMonth ds i" for i
  proof -
    have "mset (map f (month_samples getMonth i ds')) = mset (map f (month_samples getMonth i ds))"
      for f :: "weather_sample \<Rightarrow> rat"
      using assms by (simp add: month_samples_def)
    then show ?thesis
      by (simp add: monthly_summary_def one_decimal_mean_exact_mset)
  qed
  then have exact: "processHistoricalWeatherData (\<lambda>x. x) getMonth ds'
           = processHistoricalWeatherData (\<lambda>x. x) getMonth ds"
    by (simp add: processHistoricalWeatherData_eq set_eq del: upt.simps)
  have ordered: "processHistoricalWeatherData rnd getMonth ds'
              = processHistoricalWeatherData rnd getMonth ds"
    if "\<forall>i<12. month_samples getMonth i ds' = month_samples getMonth i ds"
  proof -
    from that have "map (monthly_summary rnd getMonth ds') [0..<12]
        = map (monthly_summary rnd getMonth ds) [0..<12]"
      by (simp add: monthly_summary_def del: upt.simps)
    then show ?thesis
      by (simp add: processHistoricalWeatherData_eq set_eq del: upt.simps)
  qed
  from exact ordered show ?thesis by blast
qed

theorem aggregation_permutation_witness:
  "mset winter_days_shuffled = mset winter_days
   \<and> month_samples utcMonth 0 winter_days_shuffled = month_samples utcMonth 0 winter_days
   \<and> month_samples utcMonth 1 winter_days_shuffled = month_samples utcMonth 1 winter_days
   \<and> processHistoricalWeatherData (\<lambda>x. x) utcMonth winter_days_shuffled
       = processHistoricalWeatherData (\<lambda>x. x) utcMonth winter_days
   \<and> processHistoricalWeatherData binary64 utcMonth winter_days_shuffled
       = processHistoricalWeatherData binary64 utcMonth winter_days"
proof -
  have perm: "mset winter_days_shuffled = mset winter_days"
    by (simp add: winter_days_shuffled_def winter_days_def add_mset_commute)
  have months: "utcMonth 1705320000 = 0" "utcMonth 1707998400 = 1" "utcMonth 1705406400 = 0"
    by code_simp+
  have order: "\<forall>i<12. month_samples utcMonth i winter_days_shuffled = month_samples utcMonth i winter_days"
    by (simp add: month_samples_def winter_days_shuffled_def winter_days_def months)
  from order have
    "month_samples utcMonth 0 winter_days_shuffled = month_samples utcMonth 0 winter_days"
    "month_samples utcMonth 1 winter_days_shuffled = month_samples utcMonth 1 winter_days"
    by simp_all
  with aggregation_permutation [OF perm, of utcMonth binary64] perm order
  show ?thesis by blast
qed

text \<open>
  C8 as stated fails in the language's arithmetic: four January days with the
  temperatures 0.1, 0.2, 0.3 and 0.4 give the mean 0.3, the same days in reverse
  order give 0.2 (the sums are 1 and 0.9999999999999999).
\<close>

theorem aggregation_order_counterexample:
  "mset (rev january_days) = mset january_days
   \<and> map_sum id (\<lambda>r. temperature (r ! 0)) (processHistoricalWeatherData binary64 utcMonth january_days)
       = Inr (StringV ''0.3'')
   \<and> map_sum id (\<lambda>r. temperature (r ! 0))
        (processHistoricalWeatherData binary64 utcMonth (rev january_days))
       = Inr (StringV ''0.2'')"
proof -
  have "map_sum id (\<lambda>r. temperature (r ! 0)) (processHistoricalWeatherData binary64 utcMonth january_days)
       = Inr (StringV ''0.3'')"
    by code_simp
  moreover have "map_sum id (\<lambda>r. temperature (r ! 0))
        (processHistoricalWeatherData binary64 utcMonth (rev january_days))
       = Inr (StringV ''0.2'')"
    by code_simp
  ultimately show ?thesis by simp
qed

section \<open>The estimation\<close>

lemma handleSubmit_eq:
  "apiKeyAvailable s \<Longrightarrow>
   handleSubmit env s =
     (case try_block env (reset_results s) of
        (s', None) \<Rightarrow> s'\<lparr>loading := False\<rparr>
      | (s', Some m) \<Rightarrow> s'\<lparr>error := catch_message m, loading := False\<rparr>)"
  by (simp add: handleSubmit_def)

lemma production_query_simps [simp]:
  "production_query c (s\<lparr>mapCoordinates := x\<rparr>) = production_query c s"
  "production_query c (reset_results s) = production_query c s"
  by (simp_all add: production_query_def reset_results_def)

lemma fetch_weather_fields [simp]:
  "estimate (fetch_weather env c s) = estimate s"
  "error (fetch_weather env c s) = error s"
  "monthlyData (fetch_weather env c s) = monthlyData s"
  "costEstimate (fetch_weather env c s) = costEstimate s"
  "incentives (fetch_weather env c s) = incentives s"
  by (simp_all add: fetch_weather_def split: sum.splits option.splits list.splits)

lemma fetch_historical_fields [simp]:
  "estimate (fetch_historical env c s) = estimate s"
  "error (fetch_historical env c s) = error s"
  "monthlyData (fetch_historical env c s) = monthlyData s"
  "costEstimate (fetch_historical env c s) = costEstimate s"
  "incentives (fetch_historical env c s) = incentives s"
  by (simp_all add: fetch_historical_def split: sum.splits option.splits)

lemma costing_absent_monthly:
  "ac_monthly out = None \<Longrightarrow>
   snd (costing out k s) = Some (typeError ''map'')
   \<and> error (fst (costing out k s)) = error s
   \<and> monthlyData (fst (costing out k s)) = monthlyData s
   \<and> costEstimate (fst (costing out k s)) = costEstimate s
   \<and> weatherData (fst (costing out k s)) = weatherData s
   \<and> historicalWeather (fst (costing out k s)) = historicalWeather s
   \<and> estimate (fst (costing out k s)) = Some (Math_round (to_number (ac_annual out)))"
  by (simp add: costing_def Let_def split: prod.splits)

lemma costing_monthly:
  "ac_monthly out = Some m \<Longrightarrow>
   snd (costing out k s) = None
   \<and> error (fst (costing out k s)) = error s
   \<and> monthlyData (fst (costing out k s)) = chartData m
   \<and> costEstimate (fst (costing out k s)) \<noteq> None
   \<and> map_option ce_systemSizeKW (costEstimate (fst (costing out k s))) = Some (toFixed 2 k)
   \<and> estimate (fst (costing out k s)) = Some (Math_round (to_number (ac_annual out)))"
  by (simp add: costing_def Let_def split: prod.splits)

lemma chartData_production: "map production (chartData m) = map Math_round m"
proof -
  have z: "map fst (zip m [0..<length m]) = m"
    by simp
  have "map production (chartData m) = map (Math_round \<circ> fst) (zip m [0..<length m])"
    by (simp add: chartData_def comp_def case_prod_unfold)
  also have "\<dots> = map Math_round (map fst (zip m [0..<length m]))"
    by (simp only: map_map)
  also have "\<dots> = map Math_round m"
    by (simp only: z)
  finally show ?thesis .
qed

text \<open>
  C4, as amended: a response with a non-empty error list fails with the message
  that starts ``Error fetching solar data'' and goes on with the errors joined by a
  comma and a space; a response with no outputs, or with outputs that lack the monthly
  sequence, fails with a type error; every other response succeeds, whether or not the
  annual figure is present and whatever the length of the monthly sequence, and yields
  the rounded annual figure and one chart point per monthly value, rounded, in order.
\<close>

theorem production_interpretation:
  "(\<forall>e es. errors d = Some (e # es) \<longrightarrow>
      interpret_production d k s = (s, Some (''Error fetching solar data: '' @ join '', '' (e # es))))
   \<and> (errors d = None \<or> errors d = Some [] \<longrightarrow>
        (outputs d = None \<longrightarrow> interpret_production d k s = (s, Some (typeError ''ac_annual'')))
      \<and> (\<forall>out. outputs d = Some out \<longrightarrow>
            (ac_monthly out = None \<longrightarrow>
               snd (interpret_production d k s) = Some (typeError ''map''))
          \<and> (\<forall>m. ac_monthly out = Some m \<longrightarrow>
                 snd (interpret_production d k s) = None
               \<and> estimate (fst (interpret_production d k s))
                   = Some (Math_round (to_number (ac_annual out)))
               \<and> monthlyData (fst (interpret_production d k s)) = chartData m
               \<and> map production (chartData m) = map Math_round m)))"
  using costing_absent_monthly [of _ k s] costing_monthly [of _ _ k s]
  by (auto simp: interpret_production_def chartData_production)

theorem production_interpretation_witness:
  "interpret_production \<lparr>errors = Some [''a'', ''b''], outputs = None\<rparr> (Fin 9)
       (initial_state ''1 Main St, Sacramento, CA'' (Fin 10000))
     = (initial_state ''1 Main St, Sacramento, CA'' (Fin 10000),
        Some ''Error fetching solar data: a, b'')
   \<and> interpret_production \<lparr>errors = None, outputs = None\<rparr> (Fin 9)
       (initial_state ''1 Main St, Sacramento, CA'' (Fin 10000))
     = (initial_state ''1 Main St, Sacramento, CA'' (Fin 10000), Some (typeError ''ac_annual''))
   \<and> snd (interpret_production (well_formed_response (Fin 12000)) (Fin 9)
       (initial_state ''1 Main St, Sacramento, CA'' (Fin 10000))) = None
   \<and> map production (monthlyData (fst (interpret_production (well_formed_response (Fin 12000)) (Fin 9)
       (initial_state ''1 Main St, Sacramento, CA'' (Fin 10000))))) = replicate 12 (Fin 1000)"
proof -
  let ?s = "initial_state ''1 Main St, Sacramento, CA'' (Fin 10000)"
  let ?out = "\<lparr>ac_annual = Some (Fin 12000), ac_monthly = Some (replicate 12 (jdiv (Fin 12000) (Fin 12)))\<rparr>"
  note p = production_interpretation
  have e: "errors \<lparr>errors = Some [''a'', ''b''], outputs = None\<rparr> = Some (''a'' # [''b''])"
    by simp
  from p [of "\<lparr>errors = Some [''a'', ''b''], outputs = None\<rparr>" "Fin 9" ?s] e
  have 1: "interpret_production \<lparr>errors = Some [''a'', ''b''], outputs = None\<rparr> (Fin 9) ?s
     = (?s, Some ''Error fetching solar data: a, b'')"
    by simp
  from p [of "\<lparr>errors = None, outputs = None\<rparr>" "Fin 9" ?s]
  have 2: "interpret_production \<lparr>errors = None, outputs = None\<rparr> (Fin 9) ?s
     = (?s, Some (typeError ''ac_annual''))"
    by simp
  have w: "errors (well_formed_response (Fin 12000)) = None"
    "outputs (well_formed_response (Fin 12000)) = Some ?out"
    "ac_monthly ?out = Some (replicate 12 (jdiv (Fin 12000) (Fin 12)))"
    by (simp_all add: well_formed_response_def)
  from p [of "well_formed_response (Fin 12000)" "Fin 9" ?s] w
  have 3: "snd (interpret_production (well_formed_response (Fin 12000)) (Fin 9) ?s) = None"
    and 4: "monthlyData (fst (interpret_production (well_formed_response (Fin 12000)) (Fin 9) ?s))
       = chartData (replicate 12 (jdiv (Fin 12000) (Fin 12)))"
    and 5: "map production (chartData (replicate 12 (jdiv (Fin 12000) (Fin 12))))
       = map Math_round (replicate 12 (jdiv (Fin 12000) (Fin 12)))"
    by simp_all
  have "map Math_round (replicate 12 (jdiv (Fin 12000) (Fin 12))) = replicate 12 (Fin 1000)"
    by code_simp
  with 1 2 3 4 5 show ?thesis by simp
qed

text \<open>
  C4 as stated fails: a monthly sequence of three values is accepted and charted, and
  so is a response without the annual figure.
\<close>

theorem monthly_length_counterexample:
  "error (handleSubmit
       (demo_collaborators (Inr \<lparr>errors = None,
          outputs = Some \<lparr>ac_annual = Some (Fin 12000),
                          ac_monthly = Some [Fin 1000.4, Fin 2000.5, Fin 3000.6]\<rparr>\<rparr>))
       (initial_state ''1 Main St, Sacramento, CA'' (Fin 10000))) = []
   \<and> monthlyData (handleSubmit
       (demo_collaborators (Inr \<lparr>errors = None,
          outputs = Some \<lparr>ac_annual = Some (Fin 12000),
                          ac_monthly = Some [Fin 1000.4, Fin 2000.5, Fin 3000.6]\<rparr>\<rparr>))
       (initial_state ''1 Main St, Sacramento, CA'' (Fin 10000)))
       = [\<lparr>name = Some ''Jan'', production = Fin 1000\<rparr>,
          \<lparr>name = Some ''Feb'', production = Fin 2001\<rparr>,
          \<lparr>name = Some ''Mar'', production = Fin 3001\<rparr>]
   \<and> error (handleSubmit
       (demo_collaborators (Inr \<lparr>errors = None,
          outputs = Some \<lparr>ac_annual = None, ac_monthly = Some (replicate 12 (Fin 1000))\<rparr>\<rparr>))
       (initial_state ''1 Main St, Sacramento, CA'' (Fin 10000))) = []
   \<and> estimate (handleSubmit
       (demo_collaborators (Inr \<lparr>errors = None,
          outputs = Some \<lparr>ac_annual = None, ac_monthly = Some (replicate 12 (Fin 1000))\<rparr>\<rparr>))
       (initial_state ''1 Main St, Sacramento, CA'' (Fin 10000))) = Some NaN"
  by code_simp

lemma reset_results_inputs [simp]:
  "address (reset_results s) = address s"
  "annualConsumption (reset_results s) = annualConsumption s"
  "apiKeyAvailable (reset_results s) = apiKeyAvailable s"
  by (simp_all add: reset_results_def)

lemma try_block_not_found:
  "geocode env (address s) = Inl m \<Longrightarrow> try_block env (reset_results s) = (reset_results s, Some m)"
  "geocode env (address s) = Inr [] \<Longrightarrow>
     try_block env (reset_results s) =
       (reset_results s, Some ''Unable to find coordinates for the given address'')"
  by (simp_all add: try_block_def)

lemma try_block_found:
  assumes "geocode env (address s) = Inr (c # cs)"
  shows "try_block env (reset_results s) =
     (case pvwatts env (production_query c s) of
        Inl e \<Rightarrow> ((reset_results s)\<lparr>mapCoordinates := Some c\<rparr>, Some e)
      | Inr d \<Rightarrow>
          (case interpret_production d (systemSizeKW (annualConsumption s))
                  ((reset_results s)\<lparr>mapCoordinates := Some c\<rparr>) of
             (s2, Some e) \<Rightarrow> (s2, Some e)
           | (s2, None) \<Rightarrow> (fetch_historical env c (fetch_weather env c s2), None)))"
  using assms
  by (simp add: try_block_def Let_def split: sum.splits prod.splits option.splits)

lemma interpret_production_failure:
  assumes "interpret_production d k s = (s', Some m)"
  shows "m \<noteq> [] \<and> monthlyData s' = monthlyData s \<and> costEstimate s' = costEstimate s
       \<and> weatherData s' = weatherData s \<and> historicalWeather s' = historicalWeather s
       \<and> (s' = s \<or> (\<exists>out. outputs d = Some out \<and> ac_monthly out = None
                        \<and> m = typeError ''map''))"
proof (cases "\<exists>e es. errors d = Some (e # es)")
  case True
  with assms show ?thesis by (auto simp: interpret_production_def)
next
  case False
  then have noerr: "errors d = None \<or> errors d = Some []"
  proof (cases "errors d")
    case None
    then show ?thesis by simp
  next
    case (Some a)
    with False show ?thesis by (cases a) auto
  qed
  show ?thesis
  proof (cases "outputs d")
    case None
    with assms noerr show ?thesis
      by (auto simp: interpret_production_def typeError_def)
  next
    case (Some out)
    with assms noerr have c: "costing out k s = (s', Some m)"
      by (auto simp: interpret_production_def)
    show ?thesis
    proof (cases "ac_monthly out")
      case None
      from costing_absent_monthly [OF None, of k s] c Some None show ?thesis
        by (auto simp: typeError_def)
    next
      case (Some mo)
      from costing_monthly [OF Some, of k s] c show ?thesis by simp
    qed
  qed
qed

lemma interpret_production_success:
  assumes "interpret_production d k s = (s', None)"
  shows "error s' = error s"
proof -
  from assms obtain out where out: "outputs d = Some out" and c: "costing out k s = (s', None)"
    by (auto simp: interpret_production_def split: option.splits list.splits)
  then obtain mo where "ac_monthly out = Some mo"
    using costing_absent_monthly [of out k s] by (cases "ac_monthly out") auto
  from costing_monthly [OF this, of k s] c show ?thesis by simp
qed

lemma failed_state_fields:
  assumes "apiKeyAvailable s" and "error (handleSubmit env s) \<noteq> []"
  shows "monthlyData (handleSubmit env s) = []
       \<and> costEstimate (handleSubmit env s) = None
       \<and> weatherData (handleSubmit env s) = None
       \<and> historicalWeather (handleSubmit env s) = None
       \<and> \<not> loading (handleSubmit env s)
       \<and> ((estimate (handleSubmit env s) = None \<and> incentives (handleSubmit env s) = [])
          \<or> (\<exists>c cs d out. geocode env (address s) = Inr (c # cs)
                \<and> pvwatts env (production_query c s) = Inr d
                \<and> outputs d = Some out \<and> ac_monthly out = None
                \<and> error (handleSubmit env s) = typeError ''map''))"
proof (cases "geocode env (address s)")
  case (Inl m)
  with assms(1) have "handleSubmit env s
      = (reset_results s)\<lparr>error := catch_message m, loading := False\<rparr>"
    by (simp add: handleSubmit_eq try_block_not_found)
  then show ?thesis by (simp add: reset_results_def)
next
  case found: (Inr cs0)
  show ?thesis
  proof (cases cs0)
    case Nil
    with found assms(1) have "handleSubmit env s
        = (reset_results s)\<lparr>error := catch_message
             ''Unable to find coordinates for the given address'', loading := False\<rparr>"
      by (simp add: handleSubmit_eq try_block_not_found)
    then show ?thesis by (simp add: reset_results_def)
  next
    case (Cons c cs)
    with found have f: "geocode env (address s) = Inr (c # cs)" by simp
    let ?s1 = "(reset_results s)\<lparr>mapCoordinates := Some c\<rparr>"
    let ?k = "systemSizeKW (annualConsumption s)"
    show ?thesis
    proof (cases "pvwatts env (production_query c s)")
      case (Inl m)
      with assms(1) have "handleSubmit env s = ?s1\<lparr>error := catch_message m, loading := False\<rparr>"
        by (simp add: handleSubmit_eq try_block_found [OF f])
      then show ?thesis by (simp add: reset_results_def)
    next
      case (Inr d)
      obtain s2 r where ip: "interpret_production d ?k ?s1 = (s2, r)"
        by (cases "interpret_production d ?k ?s1")
      have tb: "try_block env (reset_results s) =
          (case r of Some e \<Rightarrow> (s2, Some e)
           | None \<Rightarrow> (fetch_historical env c (fetch_weather env c s2), None))"
        using Inr ip by (simp add: try_block_found [OF f] split: option.splits)
      show ?thesis
      proof (cases r)
        case None
        with ip have "error s2 = error ?s1" by (simp add: interpret_production_success)
        moreover from None tb assms(1) have "handleSubmit env s
            = (fetch_historical env c (fetch_weather env c s2))\<lparr>loading := False\<rparr>"
          by (simp add: handleSubmit_eq)
        ultimately show ?thesis
          using assms(2) by (simp add: reset_results_def)
      next
        case (Some m)
        from interpret_production_failure [OF ip [unfolded Some]]
        have fl: "m \<noteq> []" "monthlyData s2 = []" "costEstimate s2 = None" "weatherData s2 = None"
           "historicalWeather s2 = None"
           "s2 = ?s1 \<or> (\<exists>out. outputs d = Some out \<and> ac_monthly out = None \<and> m = typeError ''map'')"
          by (simp_all add: reset_results_def)
        from Some tb assms(1) have hs: "handleSubmit env s
            = s2\<lparr>error := catch_message m, loading := False\<rparr>"
          by (simp add: handleSubmit_eq)
        from fl(6) show ?thesis
        proof
          assume "s2 = ?s1"
          with hs fl show ?thesis
            by (simp add: reset_results_def)
        next
          assume "\<exists>out. outputs d = Some out \<and> ac_monthly out = None \<and> m = typeError ''map''"
          then obtain out where "outputs d = Some out" "ac_monthly out = None" "m = typeError ''map''"
            by blast
          with hs fl f Inr show ?thesis
            by (auto simp: catch_message_def)
        qed
      qed
    qed
  qed
qed

text \<open>
  C2, as amended: when a step of the try block throws, the estimation ends with the
  error set to the message thrown (the default message for an empty one), the monthly
  series, the cost estimate and both weather results unset; the annual estimate and the
  incentives are unset too, unless the step that throws is the reading of an absent
  monthly sequence, which comes after they have been stored.
\<close>

theorem failure_publishes_no_cost_estimate:
  assumes "apiKeyAvailable s" and "snd (try_block env (reset_results s)) = Some m"
  shows "error (handleSubmit env s) = catch_message m
       \<and> error (handleSubmit env s) \<noteq> []
       \<and> monthlyData (handleSubmit env s) = []
       \<and> costEstimate (handleSubmit env s) = None
       \<and> weatherData (handleSubmit env s) = None
       \<and> historicalWeather (handleSubmit env s) = None
       \<and> \<not> loading (handleSubmit env s)
       \<and> ((estimate (handleSubmit env s) = None \<and> incentives (handleSubmit env s) = [])
          \<or> (\<exists>c cs d out. geocode env (address s) = Inr (c # cs)
                \<and> pvwatts env (production_query c s) = Inr d
                \<and> outputs d = Some out \<and> ac_monthly out = None
                \<and> error (handleSubmit env s) = typeError ''map''))"
proof -
  from assms have e: "error (handleSubmit env s) = catch_message m"
    by (cases "try_block env (reset_results s)") (simp add: handleSubmit_eq)
  have "catch_message m \<noteq> []" by (simp add: catch_message_def)
  with e have ne: "error (handleSubmit env s) \<noteq> []" by simp
  from failed_state_fields [OF assms(1) ne] e ne show ?thesis by simp
qed

theorem failure_publishes_no_cost_estimate_witness:
  "apiKeyAvailable (initial_state ''1 Main St, Sacramento, CA'' (Fin 10000))
   \<and> snd (try_block (demo_collaborators (Inr \<lparr>errors = Some [''a'', ''b''], outputs = None\<rparr>))
           (reset_results (initial_state ''1 Main St, Sacramento, CA'' (Fin 10000))))
       = Some ''Error fetching solar data: a, b''
   \<and> error (handleSubmit (demo_collaborators (Inr \<lparr>errors = Some [''a'', ''b''], outputs = None\<rparr>))
             (initial_state ''1 Main St, Sacramento, CA'' (Fin 10000)))
       = ''Error fetching solar data: a, b''
   \<and> costEstimate (handleSubmit (demo_collaborators (Inr \<lparr>errors = Some [''a'', ''b''], outputs = None\<rparr>))
             (initial_state ''1 Main St, Sacramento, CA'' (Fin 10000))) = None
   \<and> monthlyData (handleSubmit (demo_collaborators (Inr \<lparr>errors = Some [''a'', ''b''], outputs = None\<rparr>))
             (initial_state ''1 Main St, Sacramento, CA'' (Fin 10000))) = []"
proof -
  let ?env = "demo_collaborators (Inr \<lparr>errors = Some [''a'', ''b''], outputs = None\<rparr>)"
  let ?s = "initial_state ''1 Main St, Sacramento, CA'' (Fin 10000)"
  have k: "apiKeyAvailable ?s"
    by (simp add: initial_state_def)
  have t: "snd (try_block ?env (reset_results ?s)) = Some ''Error fetching solar data: a, b''"
    by (simp add: try_block_def demo_collaborators_def interpret_production_def Let_def)
  from failure_publishes_no_cost_estimate [OF k t] k t show ?thesis
    by (simp add: catch_message_def)
qed

text \<open>
  C2 as stated fails: a response with the annual figure and no monthly sequence ends
  with an error, the annual estimate 12000 and two applied incentives.
\<close>

theorem partial_estimate_counterexample:
  "error (handleSubmit
       (demo_collaborators (Inr \<lparr>errors = None,
          outputs = Some \<lparr>ac_annual = Some (Fin 12000), ac_monthly = None\<rparr>\<rparr>))
       (initial_state ''1 Main St, Sacramento, CA'' (Fin 10000))) = typeError ''map''
   \<and> estimate (handleSubmit
       (demo_collaborators (Inr \<lparr>errors = None,
          outputs = Some \<lparr>ac_annual = Some (Fin 12000), ac_monthly = None\<rparr>\<rparr>))
       (initial_state ''1 Main St, Sacramento, CA'' (Fin 10000))) = Some (Fin 12000)
   \<and> map appliedAmount (incentives (handleSubmit
       (demo_collaborators (Inr \<lparr>errors = None,
          outputs = Some \<lparr>ac_annual = Some (Fin 12000), ac_monthly = None\<rparr>\<rparr>))
       (initial_state ''1 Main St, Sacramento, CA'' (Fin 10000))))
       = [Some (Fin 1000), Some (Fin (554000 / 73))]"
  by code_simp

text \<open>
  C3, as amended: sizing has no failure. For every consumption, zero and negative
  included, the capacity is the consumption divided by 365, by 4 and by 0.75, and the
  estimation completes with that capacity whenever the address is found and the
  provider's response has no errors and holds a monthly sequence.
\<close>

theorem sizing_never_fails:
  assumes "apiKeyAvailable s"
    and "geocode env (address s) = Inr (c # cs)"
    and "pvwatts env (production_query c s) = Inr d"
    and "errors d = None \<or> errors d = Some []"
    and "outputs d = Some out"
    and "ac_monthly out = Some m"
  shows "error (handleSubmit env s) = []
       \<and> map_option ce_systemSizeKW (costEstimate (handleSubmit env s))
           = Some (toFixed 2 (systemSizeKW (annualConsumption s)))
       \<and> (\<forall>x. systemSizeKW (Fin x) = Fin (x / 365 / 4 / 0.75))"
proof -
  let ?s1 = "(reset_results s)\<lparr>mapCoordinates := Some c\<rparr>"
  let ?k = "systemSizeKW (annualConsumption s)"
  from assms(4,5) have ip: "interpret_production d ?k ?s1 = costing out ?k ?s1"
    by (auto simp: interpret_production_def)
  obtain s2 where c: "costing out ?k ?s1 = (s2, None)"
    using costing_monthly [OF assms(6), of ?k ?s1] by (cases "costing out ?k ?s1") auto
  from costing_monthly [OF assms(6), of ?k ?s1] c
  have s2: "error s2 = []" "map_option ce_systemSizeKW (costEstimate s2) = Some (toFixed 2 ?k)"
    by (simp_all add: reset_results_def)
  have "handleSubmit env s = (fetch_historical env c (fetch_weather env c s2))\<lparr>loading := False\<rparr>"
    using assms(1,3) ip c by (simp add: handleSubmit_eq try_block_found [OF assms(2)])
  with s2 have "error (handleSubmit env s) = []"
    "map_option ce_systemSizeKW (costEstimate (handleSubmit env s)) = Some (toFixed 2 ?k)"
    by simp_all
  moreover have "systemSizeKW (Fin x) = Fin (x / 365 / 4 / 0.75)" for x
    by (simp add: systemSizeKW_def systemSize_def averageSunHoursPerDay_def
        averageSystemEfficiency_def)
  ultimately show ?thesis by blast
qed

theorem sizing_never_fails_witness:
  "error (handleSubmit (demo_collaborators (Inr (well_formed_response (Fin 12000))))
       (initial_state ''1 Main St, Sacramento, CA'' (Fin 0))) = []
   \<and> map_option ce_systemSizeKW (costEstimate
       (handleSubmit (demo_collaborators (Inr (well_formed_response (Fin 12000))))
          (initial_state ''1 Main St, Sacramento, CA'' (Fin 0))))
       = Some (toFixed 2 (systemSizeKW (Fin 0)))
   \<and> systemSizeKW (Fin (- 1095)) = Fin (- 1)"
proof -
  let ?env = "demo_collaborators (Inr (well_formed_response (Fin 12000)))"
  let ?s = "initial_state ''1 Main St, Sacramento, CA'' (Fin 0)"
  let ?out = "\<lparr>ac_annual = Some (Fin 12000), ac_monthly = Some (replicate 12 (jdiv (Fin 12000) (Fin 12)))\<rparr>"
  have h: "apiKeyAvailable ?s"
    "geocode ?env (address ?s) = Inr [\<lparr>lat = ''42.65'', lon = ''-73.75''\<rparr>]"
    "pvwatts ?env (production_query \<lparr>lat = ''42.65'', lon = ''-73.75''\<rparr> ?s)
       = Inr (well_formed_response (Fin 12000))"
    "errors (well_formed_response (Fin 12000)) = None \<or> errors (well_formed_response (Fin 12000)) = Some []"
    "outputs (well_formed_response (Fin 12000)) = Some ?out"
    "ac_monthly ?out = Some (replicate 12 (jdiv (Fin 12000) (Fin 12)))"
    by (simp_all add: initial_state_def demo_collaborators_def well_formed_response_def)
  from sizing_never_fails [OF h]
  have a: "error (handleSubmit ?env ?s) = []"
    and b: "map_option ce_systemSizeKW (costEstimate (handleSubmit ?env ?s))
       = Some (toFixed 2 (systemSizeKW (annualConsumption ?s)))"
    and c: "\<forall>x. systemSizeKW (Fin x) = Fin (x / 365 / 4 / 0.75)"
    by blast+
  have ac: "annualConsumption ?s = Fin 0"
    by (simp add: initial_state_def)
  from c have d: "systemSizeKW (Fin (- 1095)) = Fin (- 1)"
    by simp
  from a b [unfolded ac] d show ?thesis by blast
qed

text \<open>
  C3 as stated fails: a consumption of 0 and a negative one are sized and estimated
  without an error, and sun hours of zero or a negative efficiency give a number too.
\<close>

theorem sizing_accepts_nonpositive_counterexample:
  "error (handleSubmit (demo_collaborators (Inr (well_formed_response (Fin 12000))))
       (initial_state ''1 Main St, Sacramento, CA'' (Fin 0))) = []
   \<and> map_option ce_systemSizeKW (costEstimate
       (handleSubmit (demo_collaborators (Inr (well_formed_response (Fin 12000))))
          (initial_state ''1 Main St, Sacramento, CA'' (Fin 0)))) = Some ''0.00''
   \<and> error (handleSubmit (demo_collaborators (Inr (well_formed_response (Fin 12000))))
       (initial_state ''1 Main St, Sacramento, CA'' (Fin (- 1095)))) = []
   \<and> map_option ce_systemSizeKW (costEstimate
       (handleSubmit (demo_collaborators (Inr (well_formed_response (Fin 12000))))
          (initial_state ''1 Main St, Sacramento, CA'' (Fin (- 1095))))) = Some ''-1.00''
   \<and> systemSize (Fin 10000) (Fin 0) (Fin 0.75) = PInf
   \<and> systemSize (Fin 10000) (Fin 4) (Fin (- 1)) = Fin (- (500 / 73))"
  by code_simp

text \<open>
  C10, as amended: the estimation of \<^verbatim>\<open>handleSubmit\<close> is a function of the state
  and of the responses to the requests it issues (two sets of collaborators that agree
  on those give the same final state); the endpoint's production does not depend on the
  request: it is a function of the random draw, an integer between 2000 and 7000.
\<close>

theorem estimation_function_of_responses:
  "(geocode env (address s) = geocode env' (address s)
     \<and> (\<forall>c cs. geocode env (address s) = Inr (c # cs) \<longrightarrow>
            pvwatts env (production_query c s) = pvwatts env' (production_query c s)
          \<and> current_weather env c = current_weather env' c
          \<and> onecall env c = onecall env' c)
     \<and> local_month env = local_month env'
     \<longrightarrow> handleSubmit env s = handleSubmit env' s)
   \<and> api_estimate req r = api_estimate req' r
   \<and> (0 \<le> r \<and> r < 1 \<longrightarrow>
        (\<exists>n. api_estimate req r = Fin (of_int n) \<and> 2000 \<le> n \<and> n \<le> 7000))"
proof -
  have det: "handleSubmit env s = handleSubmit env' s"
    if g: "geocode env (address s) = geocode env' (address s)"
      and rest: "\<forall>c cs. geocode env (address s) = Inr (c # cs) \<longrightarrow>
            pvwatts env (production_query c s) = pvwatts env' (production_query c s)
          \<and> current_weather env c = current_weather env' c
          \<and> onecall env c = onecall env' c"
      and lm: "local_month env = local_month env'"
  proof -
    have "try_block env (reset_results s) = try_block env' (reset_results s)"
    proof (cases "geocode env (address s)")
      case (Inl m)
      moreover from Inl g have "geocode env' (address s) = Inl m" by simp
      ultimately show ?thesis by (simp add: try_block_not_found)
    next
      case (Inr cs0)
      show ?thesis
      proof (cases cs0)
        case Nil
        with Inr have "geocode env (address s) = Inr []" by simp
        moreover from this g have "geocode env' (address s) = Inr []" by simp
        ultimately show ?thesis by (simp add: try_block_not_found)
      next
        case (Cons c cs)
        with Inr have f: "geocode env (address s) = Inr (c # cs)" by simp
        with g have f': "geocode env' (address s) = Inr (c # cs)" by simp
        from rest f have pv:
          "pvwatts env (production_query c s) = pvwatts env' (production_query c s)"
          and cw: "current_weather env c = current_weather env' c"
          and oc: "onecall env c = onecall env' c"
          by blast+
        have fw: "fetch_weather env c x = fetch_weather env' c x" for x
          unfolding fetch_weather_def cw by (rule refl)
        have fh: "fetch_historical env c x = fetch_historical env' c x" for x
          unfolding fetch_historical_def oc lm by (rule refl)
        show ?thesis
          by (simp add: try_block_found [OF f] try_block_found [OF f'] pv fw fh
              split: sum.splits prod.splits option.splits)
      qed
    qed
    then show ?thesis
      by (simp add: handleSubmit_def)
  qed
  have same: "api_estimate req r = api_estimate req' r"
    by (simp add: api_estimate_def)
  have range: "\<exists>n. api_estimate req r = Fin (of_int n) \<and> 2000 \<le> n \<and> n \<le> 7000"
    if "0 \<le> r \<and> r < 1"
  proof -
    let ?n = "\<lfloor>r * 5000 + 2000 + 1 / 2\<rfloor>"
    have "api_estimate req r = Fin (of_int ?n)"
      by (simp add: api_estimate_def)
    moreover from that have "2000 \<le> ?n" by (simp add: le_floor_iff)
    moreover from that have "?n \<le> 7000"
    proof -
      from that have "r * 5000 + 2000 + 1 / 2 < 7001" by simp
      then have "?n < 7001" by (simp add: floor_less_iff)
      then show ?thesis by simp
    qed
    ultimately show ?thesis by blast
  qed
  from det same range show ?thesis by blast
qed

theorem estimation_function_of_responses_witness:
  "handleSubmit (demo_collaborators (Inr (well_formed_response (Fin 12000))))
       (initial_state ''1 Main St, Sacramento, CA'' (Fin 10000))
     = handleSubmit
         ((demo_collaborators (Inr (well_formed_response (Fin 12000))))
            \<lparr>pvwatts := (\<lambda>q. if q_tilt q = 20 then Inr (well_formed_response (Fin 12000))
                              else Inl ''Failed to fetch'')\<rparr>)
         (initial_state ''1 Main St, Sacramento, CA'' (Fin 10000))
   \<and> api_estimate \<lparr>req_address = ''1 Main St, Sacramento, CA'', req_roofArea = Fin 40\<rparr> (1 / 2)
       = api_estimate \<lparr>req_address = ''12 Elm Street, Albany, NY'', req_roofArea = Fin 90\<rparr> (1 / 2)
   \<and> (\<exists>n. api_estimate \<lparr>req_address = ''1 Main St, Sacramento, CA'', req_roofArea = Fin 40\<rparr> (1 / 2)
            = Fin (of_int n) \<and> 2000 \<le> n \<and> n \<le> 7000)"
proof -
  let ?env = "demo_collaborators (Inr (well_formed_response (Fin 12000)))"
  let ?env' = "?env\<lparr>pvwatts := (\<lambda>q. if q_tilt q = 20 then Inr (well_formed_response (Fin 12000))
                              else Inl ''Failed to fetch'')\<rparr>"
  let ?s = "initial_state ''1 Main St, Sacramento, CA'' (Fin 10000)"
  have agree: "geocode ?env (address ?s) = geocode ?env' (address ?s)
     \<and> (\<forall>c cs. geocode ?env (address ?s) = Inr (c # cs) \<longrightarrow>
            pvwatts ?env (production_query c ?s) = pvwatts ?env' (production_query c ?s)
          \<and> current_weather ?env c = current_weather ?env' c
          \<and> onecall ?env c = onecall ?env' c)
     \<and> local_month ?env = local_month ?env'"
    by (simp add: demo_collaborators_def production_query_def initial_state_def)
  have r: "(0::rat) \<le> 1 / 2 \<and> (1 / 2 :: rat) < 1" by simp
  from estimation_function_of_responses [of ?env ?s ?env'
      "\<lparr>req_address = ''1 Main St, Sacramento, CA'', req_roofArea = Fin 40\<rparr>" "1 / 2"
      "\<lparr>req_address = ''12 Elm Street, Albany, NY'', req_roofArea = Fin 90\<rparr>"] agree r
  show ?thesis by blast
qed

text \<open>
  C10 as stated fails for the endpoint: the same request answers 2000 for one draw and
  4500 for another.
\<close>

theorem endpoint_random_counterexample:
  "api_estimate \<lparr>req_address = ''1 Main St, Sacramento, CA'', req_roofArea = Fin 40\<rparr> 0 = Fin 2000
   \<and> api_estimate \<lparr>req_address = ''1 Main St, Sacramento, CA'', req_roofArea = Fin 40\<rparr> (1 / 2)
       = Fin 4500"
  by code_simp

end
